theory Spec2Isabelle
  imports Main "HOL-Library.Sublist"
begin

section \<open>Python strings\<close>

text \<open>
  A Python \<^verbatim>\<open>str\<close> is modelled as a \<^typ>\<open>string\<close>: a list of 8-bit characters, each
  read as the Unicode code point of the same number (U+0000 to U+00FF). The character
  classes below are the ones Python's \<^verbatim>\<open>str\<close> methods and the \<^verbatim>\<open>re\<close> module use
  on that range.
\<close>

definition code :: "char \<Rightarrow> nat" where
  "code c = of_char c"

text \<open>\<^verbatim>\<open>str.isspace\<close>, regex \<^verbatim>\<open>\s\<close> and the characters \<^verbatim>\<open>str.strip()\<close> removes.\<close>

definition is_space :: "char \<Rightarrow> bool" where
  "is_space c = (let n = code c in
     (9 \<le> n \<and> n \<le> 13) \<or> (28 \<le> n \<and> n \<le> 32) \<or> n = 133 \<or> n = 160)"

text \<open>Regex \<^verbatim>\<open>\w\<close> on a \<^verbatim>\<open>str\<close> pattern: alphanumeric characters and the underscore.\<close>

definition is_word :: "char \<Rightarrow> bool" where
  "is_word c = (let n = code c in
     (48 \<le> n \<and> n \<le> 57) \<or> (65 \<le> n \<and> n \<le> 90) \<or> n = 95 \<or> (97 \<le> n \<and> n \<le> 122) \<or>
     n = 170 \<or> n = 178 \<or> n = 179 \<or> n = 181 \<or> n = 185 \<or> n = 186 \<or>
     (188 \<le> n \<and> n \<le> 190) \<or> (192 \<le> n \<and> n \<le> 214) \<or> (216 \<le> n \<and> n \<le> 246) \<or>
     (248 \<le> n \<and> n \<le> 255))"

text \<open>
  The characters of this range that have a lowercase counterpart: A to Z and the Latin-1
  capitals. On this range they are the characters with \<^verbatim>\<open>str.isupper()\<close>. Beyond
  U+00FF Python knows uppercase characters that \<^verbatim>\<open>str.lower()\<close> leaves unchanged;
  the section on code points below takes one of them in.
\<close>

definition is_upper :: "char \<Rightarrow> bool" where
  "is_upper c = (let n = code c in
     (65 \<le> n \<and> n \<le> 90) \<or> (192 \<le> n \<and> n \<le> 214) \<or> (216 \<le> n \<and> n \<le> 222))"

definition lower_char :: "char \<Rightarrow> char" where
  "lower_char c = (if is_upper c then char_of (code c + 32) else c)"

text \<open>\<^verbatim>\<open>s.lower()\<close>\<close>

definition lower :: "string \<Rightarrow> string" where
  "lower s = map lower_char s"

text \<open>\<^verbatim>\<open>s.strip(chars)\<close> for a set of characters given as a predicate, and \<^verbatim>\<open>s.strip()\<close>.\<close>

definition strip_chars :: "(char \<Rightarrow> bool) \<Rightarrow> string \<Rightarrow> string" where
  "strip_chars p s = rev (dropWhile p (rev (dropWhile p s)))"

definition strip :: "string \<Rightarrow> string" where
  "strip s = strip_chars is_space s"

text \<open>\<^verbatim>\<open>sub in s\<close>: the substring test, scanning the start positions from the left.\<close>

fun py_in :: "'a list \<Rightarrow> 'a list \<Rightarrow> bool" where
  "py_in sub [] = (sub = [])"
| "py_in sub (c # cs) = (prefix sub (c # cs) \<or> py_in sub cs)"

text \<open>\<^verbatim>\<open>s.split(d)\<close> for a one-character separator.\<close>

fun split_aux :: "char \<Rightarrow> string \<Rightarrow> string \<Rightarrow> string list" where
  "split_aux d cur [] = [cur]"
| "split_aux d cur (c # cs) =
     (if c = d then cur # split_aux d [] cs else split_aux d (cur @ [c]) cs)"

definition split :: "char \<Rightarrow> string \<Rightarrow> string list" where
  "split d s = split_aux d [] s"

text \<open>
  \<^verbatim>\<open>s.splitlines()\<close>: a line ends at LF, VT, FF, CR, CR LF, FS, GS, RS or NEL; a
  final line break opens no further line.
\<close>

definition is_linebreak :: "char \<Rightarrow> bool" where
  "is_linebreak c = (let n = code c in
     (10 \<le> n \<and> n \<le> 13) \<or> (28 \<le> n \<and> n \<le> 30) \<or> n = 133)"

fun splitlines_aux :: "string \<Rightarrow> string \<Rightarrow> string list" where
  "splitlines_aux cur [] = (if cur = [] then [] else [cur])"
| "splitlines_aux cur [c] =
     (if is_linebreak c then [cur] else [cur @ [c]])"
| "splitlines_aux cur (c # d # cs) =
     (if code c = 13 \<and> code d = 10 then cur # splitlines_aux [] cs
      else if is_linebreak c then cur # splitlines_aux [] (d # cs)
      else splitlines_aux (cur @ [c]) (d # cs))"

definition splitlines :: "string \<Rightarrow> string list" where
  "splitlines s = splitlines_aux [] s"

text \<open>\<^verbatim>\<open>sep.join(xs)\<close>\<close>

fun join :: "string \<Rightarrow> string list \<Rightarrow> string" where
  "join sep [] = []"
| "join sep [x] = x"
| "join sep (x # y # ys) = x @ sep @ join sep (y # ys)"

text \<open>\<^verbatim>\<open>str(n)\<close> for a non-negative integer: its decimal digits.\<close>

definition digit_char :: "nat \<Rightarrow> char" where
  "digit_char d = char_of (48 + d)"

fun str_nat :: "nat \<Rightarrow> string" where
  "str_nat n = (if n < 10 then [digit_char n] else str_nat (n div 10) @ [digit_char (n mod 10)])"

declare str_nat.simps [simp del]

section \<open>Regular expressions\<close>

text \<open>
  The patterns of the program use literals, character classes and the greedy
  quantifiers \<^verbatim>\<open>*\<close> and \<^verbatim>\<open>+\<close> on a character class. They are modelled by a
  backtracking matcher in continuation-passing style: a quantifier first takes one
  more character and only when the rest of the pattern fails gives it back.
  The continuation receives the text matched by the quantifier and the rest of the input.
\<close>

fun rx_star :: "(char \<Rightarrow> bool) \<Rightarrow> string \<Rightarrow> string \<Rightarrow> (string \<Rightarrow> string \<Rightarrow> 'a option) \<Rightarrow> 'a option" where
  "rx_star p acc [] k = k acc []"
| "rx_star p acc (c # cs) k =
     (if p c then (case rx_star p (acc @ [c]) cs k of Some r \<Rightarrow> Some r | None \<Rightarrow> k acc (c # cs))
      else k acc (c # cs))"

definition rx_plus :: "(char \<Rightarrow> bool) \<Rightarrow> string \<Rightarrow> (string \<Rightarrow> string \<Rightarrow> 'a option) \<Rightarrow> 'a option" where
  "rx_plus p s k = (case s of [] \<Rightarrow> None | c # cs \<Rightarrow> if p c then rx_star p [c] cs k else None)"

text \<open>One character of a class.\<close>

definition rx_class :: "(char \<Rightarrow> bool) \<Rightarrow> string \<Rightarrow> (string \<Rightarrow> 'a option) \<Rightarrow> 'a option" where
  "rx_class p s k = (case s of [] \<Rightarrow> None | c # cs \<Rightarrow> if p c then k cs else None)"

text \<open>A literal under \<^verbatim>\<open>re.IGNORECASE\<close>.\<close>

fun rx_lit_ci :: "string \<Rightarrow> string \<Rightarrow> (string \<Rightarrow> 'a option) \<Rightarrow> 'a option" where
  "rx_lit_ci [] s k = k s"
| "rx_lit_ci (l # ls) [] k = None"
| "rx_lit_ci (l # ls) (c # cs) k =
     (if lower_char c = lower_char l then rx_lit_ci ls cs k else None)"

text \<open>\<^verbatim>\<open>$\<close> without \<^verbatim>\<open>re.MULTILINE\<close>: the end of the text, or just before a final newline.\<close>

definition rx_end :: "string \<Rightarrow> bool" where
  "rx_end s = (s = [] \<or> s = [CHR 0x0A])"

text \<open>\<^verbatim>\<open>re.search\<close>: the match at the leftmost start position that has one.\<close>

fun rx_search :: "(string \<Rightarrow> 'a option) \<Rightarrow> string \<Rightarrow> 'a option" where
  "rx_search m [] = m []"
| "rx_search m (c # cs) = (case m (c # cs) of Some r \<Rightarrow> Some r | None \<Rightarrow> rx_search m cs)"

section \<open>Data model\<close>

text \<open>
  The value of a text field of a pull request as the JSON of the source has it: a string
  or \<^verbatim>\<open>null\<close> (Python's \<^verbatim>\<open>None\<close>). A field that is missing from the dictionary is
  \<^term>\<open>None\<close> in the record below.
\<close>

datatype pyval = PyNone | PyStr string

record pull_request =
  pr_number :: "int option"
  pr_title :: "pyval option"
  pr_body :: "pyval option"
  pr_description :: "pyval option"

text \<open>\<^verbatim>\<open>pr.get(key, "")\<close>\<close>

definition get_field :: "pyval option \<Rightarrow> pyval" where
  "get_field f = (case f of None \<Rightarrow> PyStr [] | Some v \<Rightarrow> v)"

text \<open>How an f-string renders the value.\<close>

fun fmt :: "pyval \<Rightarrow> string" where
  "fmt PyNone = ''None''"
| "fmt (PyStr s) = s"

datatype error =
    HTTPError
  | TypeError
  | ValueError

section \<open>ReportExtractor: project name from a pull request\<close>

text \<open>\<^verbatim>\<open>[\w\-]\<close> and \<^verbatim>\<open>[\s:]\<close>\<close>

definition is_name_char :: "char \<Rightarrow> bool" where
  "is_name_char c = (is_word c \<or> c = CHR ''-'')"

definition is_title_sep :: "char \<Rightarrow> bool" where
  "is_title_sep c = (is_space c \<or> c = CHR '':'')"

text \<open>\<^verbatim>\<open>re.match(r"([\w\-]+)[\s:]+", title)\<close>, giving group 1.\<close>

definition match_title :: "string \<Rightarrow> string option" where
  "match_title t = rx_plus is_name_char t (\<lambda>g r. rx_plus is_title_sep r (\<lambda>_ _. Some g))"

text \<open>\<^verbatim>\<open>re.search(r"project\s*name\s*[:\-]\s*([\w\-]+)", body, re.IGNORECASE)\<close>, giving group 1.\<close>

definition match_body_at :: "string \<Rightarrow> string option" where
  "match_body_at s =
     rx_lit_ci ''project'' s (\<lambda>s1.
     rx_star is_space [] s1 (\<lambda>_ s2.
     rx_lit_ci ''name'' s2 (\<lambda>s3.
     rx_star is_space [] s3 (\<lambda>_ s4.
     rx_class (\<lambda>c. c = CHR '':'' \<or> c = CHR ''-'') s4 (\<lambda>s5.
     rx_star is_space [] s5 (\<lambda>_ s6.
     rx_plus is_name_char s6 (\<lambda>g _. Some g)))))))"

definition search_body :: "string \<Rightarrow> string option" where
  "search_body b = rx_search match_body_at b"

text \<open>
  The optional engine of \<^verbatim>\<open>extract_project_name_from_pr\<close> is its
  \<^verbatim>\<open>infer_project_name(title, body)\<close>, which may raise and may return \<^verbatim>\<open>None\<close>.
\<close>

type_synonym name_engine = "string \<Rightarrow> string \<Rightarrow> error + string option"

text \<open>
  \<^verbatim>\<open>re.match\<close> and \<^verbatim>\<open>re.search\<close> raise \<^verbatim>\<open>TypeError\<close> on \<^verbatim>\<open>None\<close>.
\<close>

definition extract_project_name_from_pr ::
    "pull_request \<Rightarrow> name_engine option \<Rightarrow> error + string option" where
  "extract_project_name_from_pr pr llm_engine =
     (case get_field (pr_title pr) of
        PyNone \<Rightarrow> Inl TypeError
      | PyStr title \<Rightarrow>
          (let candidate = match_title title in
           if (case candidate of None \<Rightarrow> False | Some c \<Rightarrow> c \<noteq> [] \<and> lower c \<noteq> ''create'')
           then Inr candidate
           else
             (case get_field (pr_body pr) of
                PyNone \<Rightarrow> Inl TypeError
              | PyStr body \<Rightarrow>
                  (let candidate_body = search_body body in
                   if (case candidate_body of None \<Rightarrow> False
                       | Some c \<Rightarrow> c \<noteq> [] \<and> lower c \<noteq> ''create'')
                   then Inr candidate_body
                   else
                     (case llm_engine of
                        Some infer_project_name \<Rightarrow> infer_project_name title body
                      | None \<Rightarrow> Inr None)))))"

section \<open>ReportExtractor: correlation\<close>

text \<open>The lowercased text of \<^verbatim>\<open>determine_project_for_pr\<close>.\<close>

definition pr_text :: "pull_request \<Rightarrow> string" where
  "pr_text pr =
     lower (fmt (get_field (pr_title pr)) @ '' '' @ fmt (get_field (pr_body pr)) @ '' '' @
            fmt (get_field (pr_description pr)))"

text \<open>The loop over the candidates, in the order of the list it is given.\<close>

fun first_match :: "'a list \<Rightarrow> 'a list list \<Rightarrow> 'a list option" where
  "first_match text [] = None"
| "first_match text (project # rest) =
     (if py_in project text then Some project else first_match text rest)"

definition determine_project_for_pr :: "pull_request \<Rightarrow> string list \<Rightarrow> string option" where
  "determine_project_for_pr pr candidate_projects = first_match (pr_text pr) candidate_projects"

section \<open>GitHubClient and the inference service\<close>

text \<open>
  An entry of a file listing, with the keys the program reads: \<^verbatim>\<open>type\<close>,
  \<^verbatim>\<open>name\<close>, \<^verbatim>\<open>raw_url\<close> and \<^verbatim>\<open>download_url\<close> (the last two may be missing
  or \<^verbatim>\<open>null\<close>, both \<^term>\<open>None\<close> here).
\<close>

record file_info =
  fi_type :: string
  fi_name :: string
  fi_raw_url :: "string option"
  fi_download_url :: "string option"

text \<open>
  The collaborators behind the HTTP calls. Every call answers with the decoded
  response, or with the error that \<^verbatim>\<open>raise_for_status\<close> raises. \<open>list_repo_files\<close>
  is the flattened listing of the whole repository; \<open>http_get_text\<close> is the text behind
  a URL; \<open>llm_generate\<close> is the \<^verbatim>\<open>response\<close> field the inference service returns
  for a token limit and a prompt.
\<close>

record env =
  get_open_pull_requests :: "error + pull_request list"
  list_repo_files :: "error + file_info list"
  get_file_by_path :: "string \<Rightarrow> error + file_info"
  http_get_text :: "string \<Rightarrow> error + string"
  get_pr_files :: "int \<Rightarrow> error + file_info list"
  llm_generate :: "nat \<Rightarrow> string \<Rightarrow> error + string"

text \<open>Python's \<^verbatim>\<open>a or b\<close> on optional strings: \<^verbatim>\<open>None\<close> and \<^verbatim>\<open>""\<close> are falsy.\<close>

definition truthy :: "string option \<Rightarrow> bool" where
  "truthy a = (case a of None \<Rightarrow> False | Some u \<Rightarrow> u \<noteq> [])"

definition py_or :: "string option \<Rightarrow> string option \<Rightarrow> string option" where
  "py_or a b = (if truthy a then a else b)"

definition get_file_content :: "env \<Rightarrow> file_info \<Rightarrow> error + string" where
  "get_file_content e file_info =
     (let download_url = py_or (fi_raw_url file_info) (fi_download_url file_info) in
      case download_url of
        None \<Rightarrow> Inr []
      | Some url \<Rightarrow> if url = [] then Inr [] else http_get_text e url)"

subsection \<open>AnalysisEngine\<close>

definition single_prompt :: "string \<Rightarrow> nat \<Rightarrow> string" where
  "single_prompt report index =
     ''Analyze the following report (file '' @ str_nat index @
     '') and provide your thinking process step by step. '' @
     ''Make sure to retain all important attributes (e.g. maintenance, trends, risks, contributor details) '' @
     ''from the report. Report:\<newline>\<newline>'' @
     report @ ''\<newline>\<newline>'' @
     ''Your detailed analysis (chain-of-thought):''"

definition analyze_single_report :: "env \<Rightarrow> string \<Rightarrow> nat \<Rightarrow> error + string" where
  "analyze_single_report e report index =
     (case llm_generate e 150 (single_prompt report index) of
        Inl err \<Rightarrow> Inl err
      | Inr response \<Rightarrow> Inr (strip response))"

definition final_prompt :: "string list \<Rightarrow> string" where
  "final_prompt reports =
     ''Based on the following individual analysis steps, produce a comprehensive evaluation summary '' @
     ''with your detailed chain-of-thought. Retain all crucial attributes and include your reasoning process:\<newline>\<newline>'' @
     join ''\<newline>\<newline>'' reports @ ''\<newline>\<newline>Final Summary:''"

definition analyze_reports :: "env \<Rightarrow> string list \<Rightarrow> error + string" where
  "analyze_reports e reports =
     (case llm_generate e 250 (final_prompt reports) of
        Inl err \<Rightarrow> Inl err
      | Inr response \<Rightarrow> Inr (strip response))"

section \<open>ReportExtractor: candidate projects\<close>

text \<open>
  The program collects the candidates in a Python \<^verbatim>\<open>set\<close> and returns
  \<^verbatim>\<open>list(projects)\<close>, whose order Python leaves open. The set is a duplicate-free
  list here (\<^const>\<open>List.insert\<close> adds an element that is not yet there); the results
  below speak of the \<^const>\<open>set\<close> of that list only.
\<close>

definition is_pipe :: "char \<Rightarrow> bool" where
  "is_pipe c = (c = CHR ''|'')"

text \<open>\<^verbatim>\<open>line.strip("|").split("|")\<close>\<close>

definition pipe_cells :: "string \<Rightarrow> string list" where
  "pipe_cells line = split (CHR ''|'') (strip_chars is_pipe line)"

text \<open>\<^verbatim>\<open>re.match(r"^\s*[-|]+\s*$", line)\<close>\<close>

definition is_separator_row :: "string \<Rightarrow> bool" where
  "is_separator_row line =
     (rx_star is_space [] line (\<lambda>_ r1.
      rx_plus (\<lambda>c. c = CHR ''-'' \<or> c = CHR ''|'') r1 (\<lambda>_ r2.
      rx_star is_space [] r2 (\<lambda>_ r3.
      if rx_end r3 then Some () else None))) \<noteq> None)"

text \<open>\<^verbatim>\<open>re.match(r'^[\-\s]+$', project_name)\<close>\<close>

definition only_dashes :: "string \<Rightarrow> bool" where
  "only_dashes v =
     (rx_plus (\<lambda>c. c = CHR ''-'' \<or> is_space c) v (\<lambda>_ r.
      if rx_end r then Some () else None) \<noteq> None)"

text \<open>
  \<^verbatim>\<open>header_cols.index("project")\<close>. The program calls it only once the header is
  found, that is when \<^verbatim>\<open>"project"\<close> is in \<^verbatim>\<open>header_cols\<close>.
\<close>

fun index_of :: "'a \<Rightarrow> 'a list \<Rightarrow> nat" where
  "index_of x [] = 0"
| "index_of x (y # ys) = (if x = y then 0 else Suc (index_of x ys))"

text \<open>
  The loop over the lines of the schedule, with the loop variables
  \<^verbatim>\<open>header_found\<close>, \<^verbatim>\<open>header_cols\<close> and \<^verbatim>\<open>projects\<close>.
\<close>

fun schedule_loop :: "bool \<Rightarrow> string list \<Rightarrow> string list \<Rightarrow> string list \<Rightarrow> string list" where
  "schedule_loop header_found header_cols projects [] = projects"
| "schedule_loop header_found header_cols projects (line # rest) =
     (if \<not> header_found \<and> CHR ''|'' \<in> set line then
        (let header_cols' = map (\<lambda>col. lower (strip col)) (pipe_cells line) in
         schedule_loop (''project'' \<in> set header_cols') header_cols' projects rest)
      else if header_found then
        (if is_separator_row line then schedule_loop header_found header_cols projects rest
         else if CHR ''|'' \<in> set line then
           (let cols = map strip (pipe_cells line) in
            if header_cols \<noteq> [] \<and> length cols = length header_cols then
              (let idx = index_of ''project'' header_cols;
                   project_name = strip (cols ! idx) in
               if project_name \<noteq> [] \<and> \<not> only_dashes project_name
               then schedule_loop header_found header_cols
                      (List.insert (lower project_name) projects) rest
               else schedule_loop header_found header_cols projects rest)
            else schedule_loop header_found header_cols projects rest)
         else schedule_loop header_found header_cols projects rest)
      else schedule_loop header_found header_cols projects rest)"

definition schedule_path :: string where
  "schedule_path = ''tac/project-updates/2025/2025-schedule.md''"

text \<open>The body of the \<^verbatim>\<open>try\<close> block of \<^verbatim>\<open>list_possible_projects\<close>.\<close>

definition projects_from_schedule :: "env \<Rightarrow> error + string list" where
  "projects_from_schedule e =
     (case get_file_by_path e schedule_path of
        Inl err \<Rightarrow> Inl err
      | Inr file_info \<Rightarrow>
          (case get_file_content e file_info of
             Inl err \<Rightarrow> Inl err
           | Inr content \<Rightarrow>
               if py_in ''Project'' content \<and> py_in ''|'' content
               then Inr (schedule_loop False [] [] (splitlines content))
               else Inl ValueError))"

text \<open>
  \<^verbatim>\<open>re.split(r'\W+', name)\<close>: the pieces between the maximal runs of non-word
  characters; a run at either end leaves an empty piece there. The flag says that the
  scan is inside such a run.
\<close>

fun re_split_aux :: "bool \<Rightarrow> string \<Rightarrow> string \<Rightarrow> string list" where
  "re_split_aux in_sep cur [] = [cur]"
| "re_split_aux in_sep cur (c # cs) =
     (if is_word c then re_split_aux False (cur @ [c]) cs
      else if in_sep then re_split_aux True cur cs
      else cur # re_split_aux True [] cs)"

definition re_split_nonword :: "string \<Rightarrow> string list" where
  "re_split_nonword name = re_split_aux False [] name"

fun add_tokens :: "string list \<Rightarrow> string list \<Rightarrow> string list" where
  "add_tokens candidate_projects [] = candidate_projects"
| "add_tokens candidate_projects (token # tokens) =
     (if token \<noteq> [] \<and> length token > 2
      then add_tokens (List.insert (lower token) candidate_projects) tokens
      else add_tokens candidate_projects tokens)"

fun projects_from_names :: "string list \<Rightarrow> file_info list \<Rightarrow> string list" where
  "projects_from_names candidate_projects [] = candidate_projects"
| "projects_from_names candidate_projects (file_info # files) =
     (if fi_type file_info \<noteq> ''file'' then projects_from_names candidate_projects files
      else projects_from_names
             (add_tokens candidate_projects (re_split_nonword (fi_name file_info))) files)"

text \<open>\<^verbatim>\<open>except Exception\<close> catches every error of the \<^verbatim>\<open>try\<close> block.\<close>

definition list_possible_projects :: "env \<Rightarrow> error + string list" where
  "list_possible_projects e =
     (case projects_from_schedule e of
        Inr project_list \<Rightarrow> Inr project_list
      | Inl _ \<Rightarrow>
          (case list_repo_files e of
             Inl err \<Rightarrow> Inl err
           | Inr files \<Rightarrow> Inr (projects_from_names [] files)))"

section \<open>ReportExtractor: reports\<close>

text \<open>
  \<^verbatim>\<open>re.compile(re.escape(project_name), re.IGNORECASE).search(name)\<close>: the literal
  occurs in the name, letter case apart.
\<close>

definition filter_reports :: "file_info list \<Rightarrow> string \<Rightarrow> file_info list" where
  "filter_reports files project_name =
     (if project_name = [] then []
      else filter (\<lambda>f. fi_type f = ''file'' \<and> py_in (lower project_name) (lower (fi_name f)))
             files)"

fun repo_reports_loop :: "env \<Rightarrow> string \<Rightarrow> string list \<Rightarrow> file_info list \<Rightarrow> error + string list" where
  "repo_reports_loop e project_name reports [] = Inr reports"
| "repo_reports_loop e project_name reports (file_info # files) =
     (case get_file_content e file_info of
        Inl err \<Rightarrow> Inl err
      | Inr content \<Rightarrow>
          if py_in (lower project_name) (lower content)
          then repo_reports_loop e project_name (reports @ [content]) files
          else repo_reports_loop e project_name reports files)"

definition extract_reports_from_repo :: "env \<Rightarrow> string \<Rightarrow> error + string list" where
  "extract_reports_from_repo e project_name =
     (case list_repo_files e of
        Inl err \<Rightarrow> Inl err
      | Inr files \<Rightarrow> repo_reports_loop e project_name [] (filter_reports files project_name))"

fun pr_files_loop :: "env \<Rightarrow> string list \<Rightarrow> file_info list \<Rightarrow> error + string list" where
  "pr_files_loop e reports [] = Inr reports"
| "pr_files_loop e reports (file_info # files) =
     (case get_file_content e file_info of
        Inl err \<Rightarrow> Inl err
      | Inr content \<Rightarrow>
          if content \<noteq> [] then pr_files_loop e (reports @ [content]) files
          else pr_files_loop e reports files)"

text \<open>The text report: \<^verbatim>\<open>f"{pr.get('body', '')}\n{pr.get('description', '')}".strip()\<close>\<close>

definition pr_text_report :: "pull_request \<Rightarrow> string list" where
  "pr_text_report pr =
     (let content = strip (fmt (get_field (pr_body pr)) @ ''\<newline>'' @
                           fmt (get_field (pr_description pr))) in
      if content \<noteq> [] then [content] else [])"

definition extract_reports_from_pr :: "pull_request \<Rightarrow> env \<Rightarrow> error + string list" where
  "extract_reports_from_pr pr e =
     (case pr_number pr of
        Some n \<Rightarrow>
          (case get_pr_files e n of
             Inl err \<Rightarrow> Inl err
           | Inr pr_files \<Rightarrow>
               (case pr_files_loop e [] pr_files of
                  Inl err \<Rightarrow> Inl err
                | Inr reports \<Rightarrow>
                    if reports \<noteq> [] then Inr reports else Inr (pr_text_report pr)))
      | None \<Rightarrow> Inr (pr_text_report pr))"

section \<open>ResultManager and AIAgent\<close>

text \<open>
  The state the agent changes: the output file (\<^term>\<open>None\<close> while nothing has been
  written) and, to speak about the calls themselves, the list of the calls of
  \<^verbatim>\<open>write_output\<close> so far, each with its project and content.
\<close>

record agent_state =
  out_file :: "string option"
  sink_log :: "(string \<times> string) list"

definition render :: "string \<Rightarrow> string \<Rightarrow> string" where
  "render project content = project @ '':\<newline>\<newline>'' @ content @ ''\<newline>''"

definition write_output :: "string \<Rightarrow> string \<Rightarrow> agent_state \<Rightarrow> agent_state" where
  "write_output project content s =
     s\<lparr>out_file := Some (render project content),
       sink_log := sink_log s @ [(project, content)]\<rparr>"

definition step_text :: "nat \<Rightarrow> string \<Rightarrow> string" where
  "step_text idx step = ''Step '' @ str_nat idx @ '' Analysis:\<newline>'' @ step"

text \<open>The loop \<^verbatim>\<open>for idx, report in enumerate(reports, 1)\<close>.\<close>

fun steps_loop ::
    "env \<Rightarrow> string \<Rightarrow> nat \<Rightarrow> string list \<Rightarrow> string list \<Rightarrow> agent_state \<Rightarrow>
     (error + string list) \<times> agent_state" where
  "steps_loop e project idx analysis_steps [] s = (Inr analysis_steps, s)"
| "steps_loop e project idx analysis_steps (report # reports) s =
     (case analyze_single_report e report idx of
        Inl err \<Rightarrow> (Inl err, s)
      | Inr step \<Rightarrow>
          (let analysis_steps' = analysis_steps @ [step_text idx step] in
           steps_loop e project (Suc idx) analysis_steps' reports
             (write_output project (join ''\<newline>\<newline>'' analysis_steps') s)))"

text \<open>The branch \<^verbatim>\<open>if reports:\<close> of \<^verbatim>\<open>process_pull_request\<close>.\<close>

definition run_pipeline ::
    "env \<Rightarrow> string \<Rightarrow> string list \<Rightarrow> agent_state \<Rightarrow> (error + unit) \<times> agent_state" where
  "run_pipeline e project reports s =
     (case steps_loop e project 1 [] reports s of
        (Inl err, s') \<Rightarrow> (Inl err, s')
      | (Inr analysis_steps, s') \<Rightarrow>
          (case analyze_reports e analysis_steps of
             Inl err \<Rightarrow> (Inl err, s')
           | Inr final_summary \<Rightarrow>
               (Inr (), write_output project (''Final Summary:\<newline>'' @ final_summary) s')))"

definition process_pull_request ::
    "env \<Rightarrow> pull_request \<Rightarrow> string list \<Rightarrow> agent_state \<Rightarrow> (error + unit) \<times> agent_state" where
  "process_pull_request e pr candidate_projects s =
     (case determine_project_for_pr pr candidate_projects of
        None \<Rightarrow> (Inr (), s)
      | Some project \<Rightarrow>
          if project = [] then (Inr (), s)
          else
            (case extract_reports_from_pr pr e of
               Inl err \<Rightarrow> (Inl err, s)
             | Inr from_pr \<Rightarrow>
                 (case extract_reports_from_repo e project of
                    Inl err \<Rightarrow> (Inl err, s)
                  | Inr from_repo \<Rightarrow>
                      (let reports = from_pr @ from_repo in
                       if reports \<noteq> [] then run_pipeline e project reports s
                       else (Inr (), s)))))"

text \<open>The loop \<^verbatim>\<open>for pr in pull_requests\<close>: an exception leaves the loop.\<close>

fun process_all ::
    "env \<Rightarrow> string list \<Rightarrow> pull_request list \<Rightarrow> agent_state \<Rightarrow> (error + unit) \<times> agent_state" where
  "process_all e candidate_projects [] s = (Inr (), s)"
| "process_all e candidate_projects (pr # prs) s =
     (case process_pull_request e pr candidate_projects s of
        (Inl err, s') \<Rightarrow> (Inl err, s')
      | (Inr _, s') \<Rightarrow> process_all e candidate_projects prs s')"

definition run :: "env \<Rightarrow> agent_state \<Rightarrow> (error + unit) \<times> agent_state" where
  "run e s =
     (case list_possible_projects e of
        Inl err \<Rightarrow> (Inl err, s)
      | Inr candidate_projects \<Rightarrow>
          (case get_open_pull_requests e of
             Inl err \<Rightarrow> (Inl err, s)
           | Inr pull_requests \<Rightarrow>
               if pull_requests = [] then (Inr (), s)
               else process_all e candidate_projects pull_requests s))"

section \<open>Correlation on code points beyond U+00FF\<close>

text \<open>
  A Python \<^verbatim>\<open>str\<close> holds any Unicode code point. To speak of a character outside
  the 8-bit range, the correlation of \<^verbatim>\<open>determine_project_for_pr\<close> is given once
  more on strings of code points. The lowercase mapping of \<^verbatim>\<open>str.lower()\<close> is
  embedded on a part of Unicode only: on U+0000 to U+00FF, where it is
  \<^const>\<open>lower_char\<close>, and on U+03D2 (GREEK UPSILON WITH HOOK SYMBOL), an uppercase
  letter without a lowercase form, which \<^verbatim>\<open>str.lower()\<close> leaves as it is. Outside
  that part the mapping is \<^term>\<open>None\<close>, and so is every result that would need it.
\<close>

type_synonym ustring = "nat list"

definition lower_cp :: "nat \<Rightarrow> nat option" where
  "lower_cp n =
     (if n < 256 then Some (code (lower_char (char_of n)))
      else if n = 0x3D2 then Some n
      else None)"

text \<open>\<^verbatim>\<open>str.isupper()\<close> of the one character, on the same part of Unicode.\<close>

definition is_upper_cp :: "nat \<Rightarrow> bool" where
  "is_upper_cp n = (if n < 256 then is_upper (char_of n) else n = 0x3D2)"

text \<open>\<^verbatim>\<open>s.lower()\<close>\<close>

definition lower_u :: "ustring \<Rightarrow> ustring option" where
  "lower_u s = those (map lower_cp s)"

text \<open>
  The lowercased text \<^verbatim>\<open>f"{title} {body} {description}".lower()\<close> for the three
  rendered fields, and the loop over the candidates on it.
\<close>

definition pr_text_cp :: "ustring \<Rightarrow> ustring \<Rightarrow> ustring \<Rightarrow> ustring option" where
  "pr_text_cp title body description = lower_u (title @ [32] @ body @ [32] @ description)"

definition determine_project_cp ::
    "ustring \<Rightarrow> ustring \<Rightarrow> ustring \<Rightarrow> ustring list \<Rightarrow> ustring option option" where
  "determine_project_cp title body description candidate_projects =
     map_option (\<lambda>text. first_match text candidate_projects)
       (pr_text_cp title body description)"

text \<open>A string of 8-bit characters as a string of code points.\<close>

definition codes :: "string \<Rightarrow> ustring" where
  "codes s = map code s"

section \<open>Notions the properties are stated with\<close>

subsection \<open>The analysis steps\<close>

text \<open>
  \<open>analysed e idx reports ts\<close>: the analyses of the first reports, numbered from
  \<open>idx\<close>, succeed and give the texts \<open>ts\<close>, one for each.
\<close>

fun analysed :: "env \<Rightarrow> nat \<Rightarrow> string list \<Rightarrow> string list \<Rightarrow> bool" where
  "analysed e idx reports [] = True"
| "analysed e idx [] (t # ts) = False"
| "analysed e idx (r # reports) (t # ts) =
     (analyze_single_report e r idx = Inr t \<and> analysed e (Suc idx) reports ts)"

text \<open>The analysis steps made of the texts \<open>ts\<close>, numbered from \<open>idx\<close>.\<close>

fun steps_from :: "nat \<Rightarrow> string list \<Rightarrow> string list" where
  "steps_from idx [] = []"
| "steps_from idx (t # ts) = step_text idx t # steps_from (Suc idx) ts"

text \<open>
  The state after one call of \<^verbatim>\<open>write_output\<close> for each non-empty prefix of the steps,
  shortest first, each with the concatenation of the prefix: the file holds the last
  one, and is untouched when there is no step.
\<close>

definition after_steps :: "string \<Rightarrow> string list \<Rightarrow> agent_state \<Rightarrow> agent_state" where
  "after_steps project steps s =
     s\<lparr>out_file := (if steps = [] then out_file s
                     else Some (render project (join ''\<newline>\<newline>'' steps))),
       sink_log := sink_log s @
         map (\<lambda>k. (project, join ''\<newline>\<newline>'' (take k steps))) [1..<Suc (length steps)]\<rparr>"

text \<open>
  The calls of \<^verbatim>\<open>write_output\<close> for the steps \<open>xs\<close> that follow the steps \<open>acc\<close>,
  and the state after a list of such calls.
\<close>

definition log_from :: "string \<Rightarrow> string list \<Rightarrow> string list \<Rightarrow> (string \<times> string) list" where
  "log_from p acc xs =
     map (\<lambda>k. (p, join ''\<newline>\<newline>'' (acc @ take k xs))) [1..<Suc (length xs)]"

definition apply_writes :: "(string \<times> string) list \<Rightarrow> agent_state \<Rightarrow> agent_state" where
  "apply_writes W s =
     s\<lparr>out_file := (if W = [] then out_file s
                     else Some (render (fst (last W)) (snd (last W)))),
       sink_log := sink_log s @ W\<rparr>"

subsection \<open>The schedule table\<close>

text \<open>The normalized columns of a line: its cells, trimmed and lowercased.\<close>

definition norm_cols :: "string \<Rightarrow> string list" where
  "norm_cols line = map (\<lambda>col. lower (strip col)) (pipe_cells line)"

text \<open>A header row: a line with a pipe whose normalized columns include "project".\<close>

definition is_header :: "string \<Rightarrow> bool" where
  "is_header line = (CHR ''|'' \<in> set line \<and> ''project'' \<in> set (norm_cols line))"

text \<open>The trimmed cell of a row in the "project" column of the header.\<close>

definition project_cell :: "string \<Rightarrow> string \<Rightarrow> string" where
  "project_cell hdr row = strip (pipe_cells row ! index_of ''project'' (norm_cols hdr))"

text \<open>
  A row that contributes a project: not a separator row, with a pipe, with as many
  cells as the header, and with a project cell that is neither empty nor made of hyphens
  and whitespace only.
\<close>

definition is_project_row :: "string \<Rightarrow> string \<Rightarrow> bool" where
  "is_project_row hdr row =
     (\<not> is_separator_row row \<and> CHR ''|'' \<in> set row \<and>
      length (pipe_cells row) = length (pipe_cells hdr) \<and>
      project_cell hdr row \<noteq> [] \<and> \<not> only_dashes (project_cell hdr row))"

definition table_projects :: "string \<Rightarrow> string list \<Rightarrow> string list" where
  "table_projects hdr rows = map (\<lambda>row. lower (project_cell hdr row)) (filter (is_project_row hdr) rows)"

subsection \<open>The tokens of the file names\<close>

definition name_tokens :: "file_info list \<Rightarrow> string list" where
  "name_tokens files =
     map lower (filter (\<lambda>t. length t > 2)
       (concat (map (\<lambda>f. re_split_nonword (fi_name f))
          (filter (\<lambda>f. fi_type f = ''file'') files))))"

section \<open>Example inputs\<close>

text \<open>The pull request of the repository's test of the name extraction.\<close>

definition sample_pr_title :: pull_request where
  "sample_pr_title = \<lparr> pr_number = None,
     pr_title = Some (PyStr ''Create 2025-annual-Hyperledger-FireFly.md''),
     pr_body = Some (PyStr ''This PR contains the annual report. Project name: Hyperledger FireFly.''),
     pr_description = None \<rparr>"

definition firefly_pr :: pull_request where
  "firefly_pr = \<lparr> pr_number = Some 7,
     pr_title = Some (PyStr ''FireFly: annual report''),
     pr_body = Some (PyStr ''Update for Hyperledger FireFly''),
     pr_description = None \<rparr>"

text \<open>
  A repository without a schedule document and with two report files that have no
  download URL. Listing the files of pull request 1 fails; pull request 2 has one
  changed file, without content. The inference service fails on a prompt that
  mentions an outage and answers every other one.
\<close>

definition besu_file :: file_info where
  "besu_file = \<lparr> fi_type = ''file'', fi_name = ''2025-besu-report.md'',
     fi_raw_url = None, fi_download_url = None \<rparr>"

definition fabric_file :: file_info where
  "fabric_file = \<lparr> fi_type = ''file'', fi_name = ''Fabric-Q1.md'',
     fi_raw_url = None, fi_download_url = Some [] \<rparr>"

definition besu_pr :: pull_request where
  "besu_pr = \<lparr> pr_number = Some 1,
     pr_title = Some (PyStr ''Besu update''),
     pr_body = Some (PyStr ''Quarterly numbers''),
     pr_description = None \<rparr>"

definition fabric_pr :: pull_request where
  "fabric_pr = \<lparr> pr_number = Some 2,
     pr_title = Some (PyStr ''Fabric update''),
     pr_body = Some (PyStr '' Healthy quarter.\<newline>''),
     pr_description = None \<rparr>"

definition demo_env :: env where
  "demo_env = \<lparr>
     get_open_pull_requests = Inr [besu_pr, fabric_pr],
     list_repo_files = Inr [besu_file, fabric_file],
     get_file_by_path = (\<lambda>_. Inl HTTPError),
     http_get_text = (\<lambda>_. Inl HTTPError),
     get_pr_files = (\<lambda>n. if n = 1 then Inl HTTPError else Inr [fabric_file]),
     llm_generate = (\<lambda>_ prompt. if py_in ''outage'' prompt then Inl HTTPError
                                 else Inr '' looks healthy '') \<rparr>"

definition empty_state :: agent_state where
  "empty_state = \<lparr> out_file = None, sink_log = [] \<rparr>"

text \<open>The state after the pipeline has run for the project "fabric" in \<^const>\<open>demo_env\<close>.\<close>

definition fabric_done :: agent_state where
  "fabric_done = \<lparr>
     out_file = Some ''fabric:\<newline>\<newline>Final Summary:\<newline>looks healthy\<newline>'',
     sink_log = [(''fabric'', ''Step 1 Analysis:\<newline>looks healthy''),
                 (''fabric'', ''Final Summary:\<newline>looks healthy'')] \<rparr>"

definition three_pr_env :: env where
  "three_pr_env = demo_env\<lparr>get_open_pull_requests := Inr [fabric_pr, besu_pr, firefly_pr]\<rparr>"

definition demo_candidates :: "string list" where
  "demo_candidates = [''fabric'', ''report'', ''besu'', ''2025'']"

definition four_reports :: "string list" where
  "four_reports = [''all fine'', ''ok too'', ''an outage occurred'', ''more'']"

text \<open>A pull request that has a title and nothing else.\<close>

definition title_only_pr :: pull_request where
  "title_only_pr = \<lparr> pr_number = None,
     pr_title = Some (PyStr ''Annual report of Fabric''),
     pr_body = Some (PyStr []),
     pr_description = None \<rparr>"

text \<open>A repository whose schedule document has the given content, and no other file.\<close>

definition schedule_file :: file_info where
  "schedule_file = \<lparr> fi_type = ''file'', fi_name = ''2025-schedule.md'',
     fi_raw_url = None, fi_download_url = Some ''https://raw.example/2025-schedule.md'' \<rparr>"

definition schedule_env :: "string \<Rightarrow> env" where
  "schedule_env content = \<lparr>
     get_open_pull_requests = Inr [],
     list_repo_files = Inr [],
     get_file_by_path = (\<lambda>path. if path = schedule_path then Inr schedule_file
                                  else Inl HTTPError),
     http_get_text = (\<lambda>url. if url = ''https://raw.example/2025-schedule.md'' then Inr content
                              else Inl HTTPError),
     get_pr_files = (\<lambda>_. Inr []),
     llm_generate = (\<lambda>_ _. Inr []) \<rparr>"

definition spec_schedule :: string where
  "spec_schedule =
     ''Project | Status\<newline>Hyperledger FireFly | Active\<newline>ProjectY | Active''"

definition lowercase_schedule :: string where
  "lowercase_schedule = ''project | status\<newline>fabric | active''"

text \<open>
  A schedule document that has the text "Project" and pipes but no line with a
  "project" column, in a repository with one more file; and the repository of
  \<^const>\<open>demo_env\<close> when listing its files fails.
\<close>

definition headerless_schedule :: string where
  "headerless_schedule = ''Projects | Status\<newline>fabric | active''"

definition headerless_env :: env where
  "headerless_env = (schedule_env headerless_schedule)\<lparr>list_repo_files := Inr [besu_file]\<rparr>"

definition no_listing_env :: env where
  "no_listing_env = demo_env\<lparr>list_repo_files := Inl HTTPError\<rparr>"

section \<open>Strings and patterns: basic facts\<close>

lemma py_in_sublist: "py_in sub s = sublist sub s"
  by (induction s) (auto simp: sublist_Cons_right)

lemma sublist_set: "sublist xs ys \<Longrightarrow> set xs \<subseteq> set ys"
  by (auto simp: sublist_def)

lemma code_lower_upper: "is_upper c \<Longrightarrow> code (char_of (code c + 32)) = code c + 32"
  unfolding is_upper_def code_def Let_def
  by (auto simp: of_char_of)

lemma lower_char_not_upper: "\<not> is_upper (lower_char c)"
proof (cases "is_upper c")
  case True
  then have "code (lower_char c) = code c + 32"
    by (simp add: lower_char_def code_lower_upper)
  with True show ?thesis
    unfolding is_upper_def Let_def by auto
next
  case False
  then show ?thesis by (simp add: lower_char_def)
qed

text \<open>A quantifier followed by a pattern that always matches never backtracks.\<close>

lemma rx_star_const: "rx_star p acc s (\<lambda>_ _. Some g) = Some g"
  by (induction s arbitrary: acc) auto

text \<open>
  When the rest of the pattern matches after the quantifier has taken a whole run of
  characters of its class, that is the match: longer alternatives come first.
\<close>

lemma rx_star_greedy:
  "\<forall>c\<in>set xs. p c \<Longrightarrow> rest = [] \<or> \<not> p (hd rest) \<Longrightarrow> k (acc @ xs) rest = Some r \<Longrightarrow>
   rx_star p acc (xs @ rest) k = Some r"
proof (induction xs arbitrary: acc)
  case Nil
  then show ?case by (cases rest) auto
next
  case (Cons x xs)
  then have "rx_star p (acc @ [x]) (xs @ rest) k = Some r" by simp
  with Cons.prems show ?case by simp
qed

section \<open>Project name from a pull request\<close>

lemma title_sep_not_name_char: "is_title_sep c \<Longrightarrow> \<not> is_name_char c"
proof -
  have "code CHR '':'' = 58" "code CHR ''-'' = 45"
    by (simp_all add: code_def)
  then show "is_title_sep c \<Longrightarrow> \<not> is_name_char c"
    unfolding is_title_sep_def is_name_char_def is_space_def is_word_def Let_def
    by auto
qed

lemma match_title_token:
  assumes "tok \<noteq> []" "\<forall>c\<in>set tok. is_name_char c" "is_title_sep sep"
  shows "match_title (tok @ sep # rest) = Some tok"
proof -
  obtain t ts where tok: "tok = t # ts" using assms(1) by (cases tok) auto
  have k: "rx_plus is_title_sep (sep # rest) (\<lambda>_ _. Some tok) = Some tok"
    using assms(3) by (simp add: rx_plus_def rx_star_const)
  have "rx_star is_name_char [t] (ts @ sep # rest)
          (\<lambda>g r. rx_plus is_title_sep r (\<lambda>_ _. Some g)) = Some tok"
    using assms(2,3) k tok by (intro rx_star_greedy) (auto simp: title_sep_not_name_char)
  then show ?thesis using assms(2) tok by (simp add: match_title_def rx_plus_def)
qed

text \<open>
  Claim C8. When the title of a pull request starts with a token of word characters and
  hyphens that is followed by whitespace or a colon, and the token is not "create" in
  any letter case, \<^const>\<open>extract_project_name_from_pr\<close> returns that token as it
  stands in the title, with or without an engine.
\<close>

theorem title_token_returned_unchanged:
  assumes "pr_title pr = Some (PyStr (tok @ sep # rest))" "tok \<noteq> []"
    "\<forall>c\<in>set tok. is_name_char c" "is_title_sep sep" "lower tok \<noteq> ''create''"
  shows "extract_project_name_from_pr pr llm_engine = Inr (Some tok)"
  using assms match_title_token [of tok sep rest]
  by (simp add: extract_project_name_from_pr_def get_field_def)

theorem title_token_returned_unchanged_witness:
  "pr_title firefly_pr = Some (PyStr (''FireFly'' @ CHR '':'' # '' annual report'')) \<and>
   list_all is_name_char ''FireFly'' \<and> is_title_sep CHR '':'' \<and>
   lower ''FireFly'' \<noteq> ''create'' \<and>
   extract_project_name_from_pr firefly_pr None = Inr (Some ''FireFly'')"
proof -
  have h1: "pr_title firefly_pr = Some (PyStr (''FireFly'' @ CHR '':'' # '' annual report''))"
    by (simp add: firefly_pr_def)
  have h2: "\<forall>c\<in>set ''FireFly''. is_name_char c" by code_simp
  have h3: "is_title_sep CHR '':''" by code_simp
  have h4: "lower ''FireFly'' \<noteq> ''create''" by code_simp
  have h0: "''FireFly'' \<noteq> []" by simp
  show ?thesis
    using h1 h2 h3 h4 title_token_returned_unchanged [OF h1 h0 h2 h3 h4, of None]
    by (simp add: list_all_iff)
qed

text \<open>
  Claim C3. On the pull request titled "Create 2025-annual-Hyperledger-FireFly.md" whose
  body ends in "Project name: Hyperledger FireFly.", the title pattern yields "Create",
  which is rejected, and the body pattern matches; what the program returns, whatever
  the engine, is the group of the body pattern, "Hyperledger": the group stops at the
  space. The engine has no part in the result. The repository's test expects
  "Hyperledger FireFly".
\<close>

theorem sample_pr_name_is_first_word:
  "match_title ''Create 2025-annual-Hyperledger-FireFly.md'' = Some ''Create'' \<and>
   search_body ''This PR contains the annual report. Project name: Hyperledger FireFly.'' =
     Some ''Hyperledger'' \<and>
   (\<forall>infer. extract_project_name_from_pr sample_pr_title (Some infer) =
      Inr (Some ''Hyperledger''))"
proof -
  have t: "match_title ''Create 2025-annual-Hyperledger-FireFly.md'' = Some ''Create''"
    by code_simp
  have b: "search_body ''This PR contains the annual report. Project name: Hyperledger FireFly.'' =
      Some ''Hyperledger''"
    by code_simp
  have l1: "lower ''Create'' = ''create''" by code_simp
  have l2: "lower ''Hyperledger'' \<noteq> ''create''" by code_simp
  show ?thesis using t b l1 l2
    by (simp add: extract_project_name_from_pr_def sample_pr_title_def get_field_def)
qed

section \<open>Correlation\<close>

lemma first_match_Some:
  "first_match text cs = Some c \<Longrightarrow> c \<in> set cs \<and> py_in c text"
  by (induction cs) (auto split: if_splits)

lemma first_match_None:
  "first_match text cs = None \<longleftrightarrow> (\<forall>c\<in>set cs. \<not> py_in c text)"
  by (induction cs) auto

text \<open>
  Claim C6. \<^const>\<open>determine_project_for_pr\<close> works on \<^const>\<open>pr_text\<close>, the lowercased
  text made of title, body and description. Whenever some candidate occurs in that text
  as a contiguous substring, the result is a candidate that does; the result is
  \<^term>\<open>None\<close> exactly when no candidate occurs in it.
\<close>

theorem correlation_returns_occurring_candidate:
  "((\<exists>c\<in>set cands. sublist c (pr_text pr)) \<longrightarrow>
      (\<exists>c. determine_project_for_pr pr cands = Some c \<and> c \<in> set cands \<and>
           sublist c (pr_text pr))) \<and>
   (determine_project_for_pr pr cands = None \<longleftrightarrow>
      (\<forall>c\<in>set cands. \<not> sublist c (pr_text pr)))"
proof -
  have n: "determine_project_for_pr pr cands = None \<longleftrightarrow>
      (\<forall>c\<in>set cands. \<not> sublist c (pr_text pr))"
    by (simp add: determine_project_for_pr_def first_match_None py_in_sublist)
  have "\<exists>c. determine_project_for_pr pr cands = Some c \<and> c \<in> set cands \<and>
      sublist c (pr_text pr)"
    if "\<exists>c\<in>set cands. sublist c (pr_text pr)"
  proof -
    from that n obtain c where c: "determine_project_for_pr pr cands = Some c" by auto
    then show ?thesis
      using first_match_Some [of "pr_text pr" cands c]
      by (simp add: determine_project_for_pr_def py_in_sublist)
  qed
  with n show ?thesis by blast
qed

theorem correlation_returns_occurring_candidate_witness:
  "(\<exists>c\<in>set [''fabric'', ''hyperledger firefly'']. sublist c (pr_text firefly_pr)) \<and>
   determine_project_for_pr firefly_pr [''fabric'', ''hyperledger firefly''] =
     Some ''hyperledger firefly'' \<and>
   \<not> sublist ''fabric'' (pr_text firefly_pr) \<and>
   determine_project_for_pr firefly_pr [''fabric''] = None"
proof -
  have a: "py_in ''hyperledger firefly'' (pr_text firefly_pr)" by code_simp
  have b: "\<not> py_in ''fabric'' (pr_text firefly_pr)" by code_simp
  have h: "\<exists>c\<in>set [''fabric'', ''hyperledger firefly'']. sublist c (pr_text firefly_pr)"
    using a by (simp add: py_in_sublist)
  from correlation_returns_occurring_candidate [of "[''fabric'', ''hyperledger firefly'']" firefly_pr] h
  obtain c where c:
    "determine_project_for_pr firefly_pr [''fabric'', ''hyperledger firefly''] = Some c"
    "c \<in> set [''fabric'', ''hyperledger firefly'']" "sublist c (pr_text firefly_pr)"
    by blast
  with b have "c = ''hyperledger firefly''" by (auto simp: py_in_sublist)
  moreover have "determine_project_for_pr firefly_pr [''fabric''] = None"
    using correlation_returns_occurring_candidate [of "[''fabric'']" firefly_pr] b
    by (simp add: py_in_sublist)
  ultimately show ?thesis using h b c by (simp add: py_in_sublist)
qed

text \<open>
  On strings of 8-bit characters a candidate with an uppercase character is never the
  result of \<^const>\<open>determine_project_for_pr\<close>.
\<close>

lemma lower_no_upper: "ch \<in> set (lower s) \<Longrightarrow> \<not> is_upper ch"
  by (auto simp: lower_def lower_char_not_upper)

lemma latin1_upper_candidate_not_returned:
  assumes "\<exists>ch\<in>set cand. is_upper ch"
  shows "determine_project_for_pr pr cands \<noteq> Some cand"
proof
  assume "determine_project_for_pr pr cands = Some cand"
  then have "py_in cand (pr_text pr)"
    using first_match_Some [of "pr_text pr" cands cand]
    by (simp add: determine_project_for_pr_def)
  then have "set cand \<subseteq> set (pr_text pr)"
    by (simp add: py_in_sublist sublist_set)
  then show False using assms lower_no_upper by (auto simp: pr_text_def)
qed

subsection \<open>Code points beyond U+00FF\<close>

lemma code_eq_iff: "code a = code b \<longleftrightarrow> a = b"
  by (simp add: code_def)

lemma code_char_of: "n < 256 \<Longrightarrow> code (char_of n) = n"
  by (simp add: code_def)


lemma lower_char_changes: "lower_char c \<noteq> c \<longleftrightarrow> is_upper c"
proof (cases "is_upper c")
  case True
  then have "code (lower_char c) = code c + 32"
    by (simp add: lower_char_def code_lower_upper)
  then have "lower_char c \<noteq> c" by auto
  with True show ?thesis by simp
next
  case False
  then show ?thesis by (simp add: lower_char_def)
qed

text \<open>
  On U+0000 to U+00FF the uppercase characters are the characters that lowercasing
  changes. U+03D2 is uppercase and is not changed.
\<close>

lemma upper_latin1_changes: "n < 256 \<Longrightarrow> is_upper_cp n \<longleftrightarrow> lower_cp n \<noteq> Some n"
proof -
  assume n: "n < 256"
  have "lower_cp n \<noteq> Some n \<longleftrightarrow> code (lower_char (char_of n)) \<noteq> code (char_of n)"
    using n by (simp add: lower_cp_def code_char_of)
  also have "\<dots> \<longleftrightarrow> lower_char (char_of n) \<noteq> char_of n" by (simp only: code_eq_iff)
  also have "\<dots> \<longleftrightarrow> is_upper (char_of n)" by (rule lower_char_changes)
  finally show ?thesis using n by (simp add: is_upper_cp_def)
qed




text \<open>
  On strings of 8-bit characters the correlation on code points is the correlation
  of \<^const>\<open>determine_project_for_pr\<close>: the first candidate that occurs in the
  lowercased text.
\<close>

lemma lower_cp_code: "lower_cp (code c) = Some (code (lower_char c))"
  by (simp add: lower_cp_def code_def)

lemma lower_u_codes: "lower_u (codes s) = Some (codes (lower s))"
  by (induction s) (simp_all add: lower_u_def codes_def lower_def lower_cp_code)

lemma prefix_codes: "prefix (codes a) (codes b) = prefix a b"
  unfolding codes_def
proof (induction a arbitrary: b)
  case Nil
  show ?case by simp
next
  case (Cons x a)
  show ?case using Cons [of "tl b"] by (cases b) (auto simp: code_def)
qed

lemma py_in_codes: "py_in (codes a) (codes b) = py_in a b"
proof (induction b)
  case Nil
  show ?case by (simp add: codes_def)
next
  case (Cons c b)
  have "py_in (codes a) (codes (c # b)) =
      (prefix (codes a) (codes (c # b)) \<or> py_in (codes a) (codes b))"
    by (simp add: codes_def)
  then show ?case using Cons by (simp add: prefix_codes)
qed

lemma first_match_codes:
  "first_match (codes blob) (map codes cands) = map_option codes (first_match blob cands)"
  by (induction cands) (simp_all add: py_in_codes)

lemma codes_append: "codes (a @ b) = codes a @ codes b"
  by (simp add: codes_def)

lemma codes_space: "codes '' '' = [32]"
  by (simp add: codes_def code_def)

lemma determine_project_cp_codes:
  "determine_project_cp (codes t) (codes b) (codes d) (map codes cands) =
   Some (map_option codes (first_match (lower (t @ '' '' @ b @ '' '' @ d)) cands))"
proof -
  have "codes t @ [32] @ codes b @ [32] @ codes d = codes (t @ '' '' @ b @ '' '' @ d)"
    by (simp only: codes_append codes_space)
  then show ?thesis
    by (simp only: determine_project_cp_def pr_text_cp_def lower_u_codes first_match_codes
        option.map)
qed




section \<open>The analysis pipeline\<close>

lemma upt_shift: "[Suc 0..<Suc (Suc n)] = Suc 0 # map Suc [Suc 0..<Suc n]"
  by (simp add: map_Suc_upt upt_conv_Cons del: upt_Suc)

lemma log_from_Nil: "log_from p acc [] = []"
  by (simp add: log_from_def)

lemma log_from_Cons:
  "log_from p acc (x # xs) = (p, join ''\<newline>\<newline>'' (acc @ [x])) # log_from p (acc @ [x]) xs"
  unfolding log_from_def
  by (simp add: upt_shift comp_def del: upt_Suc)

text \<open>
  While the analyses succeed, the loop appends one step and calls \<^verbatim>\<open>write_output\<close>
  once for each report.
\<close>

lemma steps_loop_analysed:
  "analysed e idx reports ts \<Longrightarrow>
   steps_loop e p idx acc reports s =
   steps_loop e p (idx + length ts) (acc @ steps_from idx ts) (drop (length ts) reports)
     (s\<lparr>out_file := (if ts = [] then out_file s
                      else Some (render p (join ''\<newline>\<newline>'' (acc @ steps_from idx ts)))),
        sink_log := sink_log s @ log_from p acc (steps_from idx ts)\<rparr>)"
proof (induction e idx reports ts arbitrary: acc s rule: analysed.induct)
  case (1 e idx reports)
  then show ?case by (simp add: log_from_def)
next
  case (2 e idx t ts)
  then show ?case by simp
next
  case (3 e idx r reports t ts)
  then show ?case
    by (cases "ts = []") (simp_all add: log_from_Cons log_from_Nil write_output_def Let_def)
qed

lemma analysed_length: "analysed e idx reports ts \<Longrightarrow> length ts \<le> length reports"
  by (induction e idx reports ts rule: analysed.induct) auto

lemma analysed_take:
  "analysed e idx reports ts \<Longrightarrow> analysed e idx (take (length ts) reports) ts"
  by (induction e idx reports ts rule: analysed.induct) auto

lemma steps_from_Nil_iff: "steps_from idx ts = [] \<longleftrightarrow> ts = []"
  by (cases ts) auto

lemma length_steps_from: "length (steps_from idx ts) = length ts"
  by (induction ts arbitrary: idx) auto

lemma steps_loop_prefix:
  assumes "analysed e 1 reports ts"
  shows "steps_loop e p 1 [] (take (length ts) reports) s =
         (Inr (steps_from 1 ts), after_steps p (steps_from 1 ts) s)"
  using steps_loop_analysed [OF analysed_take [OF assms], of p "[]" s] analysed_length [OF assms]
  by (simp add: after_steps_def log_from_def steps_from_Nil_iff length_steps_from)

lemma steps_loop_failure:
  assumes "analysed e 1 reports ts" "length ts < length reports"
    "analyze_single_report e (reports ! length ts) (Suc (length ts)) = Inl err"
  shows "steps_loop e p 1 [] reports s = (Inl err, after_steps p (steps_from 1 ts) s)"
proof -
  from assms(2) obtain r rest where d: "drop (length ts) reports = r # rest"
    "r = reports ! length ts"
    by (metis Cons_nth_drop_Suc)
  show ?thesis
    using steps_loop_analysed [OF assms(1), of p "[]" s] d assms(3)
    by (simp add: after_steps_def log_from_def steps_from_Nil_iff length_steps_from)
qed

text \<open>
  Claim C2, as amended. Let the analyses of the first \<open>k\<close> reports succeed with the
  texts \<open>ts\<close> (\<open>k\<close> their number). Then the loop, once through these \<open>k\<close> reports, has
  called \<^verbatim>\<open>write_output\<close> once after each of them, with the concatenation of the
  steps so far, and the file holds the concatenation of the steps 1 to \<open>k\<close> (in the
  rendering of \<^const>\<open>render\<close>). When the analysis of the next report fails, the
  pipeline ends with that error in exactly this state: for \<open>k \<ge> 1\<close> the file holds the
  steps before the failing report, and for a failure on the first report
  (\<open>k = 0\<close>) the file is what it was before the pipeline started.
\<close>

theorem steps_persisted_after_each_report:
  assumes "analysed e 1 reports ts"
  shows "steps_loop e project 1 [] (take (length ts) reports) s =
           (Inr (steps_from 1 ts), after_steps project (steps_from 1 ts) s) \<and>
         (length ts < length reports \<and>
          analyze_single_report e (reports ! length ts) (Suc (length ts)) = Inl err \<longrightarrow>
          run_pipeline e project reports s =
            (Inl err, after_steps project (steps_from 1 ts) s))"
  using steps_loop_prefix [OF assms] steps_loop_failure [OF assms]
  by (simp add: run_pipeline_def)

theorem steps_persisted_after_each_report_witness:
  "analysed demo_env 1 four_reports [''looks healthy'', ''looks healthy''] \<and>
   analyze_single_report demo_env (four_reports ! 2) 3 = Inl HTTPError \<and>
   run_pipeline demo_env ''besu'' four_reports empty_state =
     (Inl HTTPError,
      \<lparr>out_file = Some ''besu:\<newline>\<newline>Step 1 Analysis:\<newline>looks healthy\<newline>\<newline>Step 2 Analysis:\<newline>looks healthy\<newline>'',
       sink_log =
         [(''besu'', ''Step 1 Analysis:\<newline>looks healthy''),
          (''besu'', ''Step 1 Analysis:\<newline>looks healthy\<newline>\<newline>Step 2 Analysis:\<newline>looks healthy'')]\<rparr>)"
proof -
  have h: "analysed demo_env 1 four_reports [''looks healthy'', ''looks healthy'']"
    by code_simp
  have f: "analyze_single_report demo_env (four_reports ! 2) 3 = Inl HTTPError"
    by code_simp
  have l: "length [''looks healthy'', ''looks healthy''] < length four_reports"
    by (simp add: four_reports_def)
  have a: "after_steps ''besu'' (steps_from 1 [''looks healthy'', ''looks healthy'']) empty_state =
     \<lparr>out_file = Some ''besu:\<newline>\<newline>Step 1 Analysis:\<newline>looks healthy\<newline>\<newline>Step 2 Analysis:\<newline>looks healthy\<newline>'',
       sink_log =
         [(''besu'', ''Step 1 Analysis:\<newline>looks healthy''),
          (''besu'', ''Step 1 Analysis:\<newline>looks healthy\<newline>\<newline>Step 2 Analysis:\<newline>looks healthy'')]\<rparr>"
    by code_simp
  have f': "analyze_single_report demo_env
      (four_reports ! length [''looks healthy'', ''looks healthy''])
      (Suc (length [''looks healthy'', ''looks healthy''])) = Inl HTTPError"
    by code_simp
  from steps_persisted_after_each_report
    [OF h, where project = "''besu''" and s = empty_state and err = HTTPError] l f'
  have "run_pipeline demo_env ''besu'' four_reports empty_state =
      (Inl HTTPError,
       after_steps ''besu'' (steps_from 1 [''looks healthy'', ''looks healthy'']) empty_state)"
    by blast
  then have "run_pipeline demo_env ''besu'' four_reports empty_state =
     (Inl HTTPError,
      \<lparr>out_file = Some ''besu:\<newline>\<newline>Step 1 Analysis:\<newline>looks healthy\<newline>\<newline>Step 2 Analysis:\<newline>looks healthy\<newline>'',
       sink_log =
         [(''besu'', ''Step 1 Analysis:\<newline>looks healthy''),
          (''besu'', ''Step 1 Analysis:\<newline>looks healthy\<newline>\<newline>Step 2 Analysis:\<newline>looks healthy'')]\<rparr>)"
    by (simp only: a)
  with h f show ?thesis by (intro conjI)
qed

text \<open>
  The claim as it stands fails for a failure on the first report: the file then holds
  what an earlier pipeline left there, here the final summary of another project, and
  not an empty concatenation of steps.
\<close>

theorem failure_on_first_report_counterexample:
  "run_pipeline demo_env ''fabric'' [''Healthy quarter.''] empty_state = (Inr (), fabric_done) \<and>
   analyze_single_report demo_env ''an outage occurred'' 1 = Inl HTTPError \<and>
   run_pipeline demo_env ''besu'' [''an outage occurred''] fabric_done =
     (Inl HTTPError, fabric_done) \<and>
   out_file fabric_done = Some ''fabric:\<newline>\<newline>Final Summary:\<newline>looks healthy\<newline>'' \<and>
   out_file fabric_done \<noteq> Some (render ''besu'' (join ''\<newline>\<newline>'' [])) \<and>
   out_file fabric_done \<noteq> Some (join ''\<newline>\<newline>'' [])"
  by code_simp

text \<open>What the pipeline does to the state is a list of writes that does not depend on the state.\<close>

lemma apply_writes_Nil: "apply_writes [] s = s"
  by (simp add: apply_writes_def)

lemma apply_writes_write: "apply_writes W (write_output p c s) = apply_writes ((p, c) # W) s"
  by (simp add: apply_writes_def write_output_def)

lemma write_apply_writes: "write_output p c (apply_writes W s) = apply_writes (W @ [(p, c)]) s"
  by (simp add: apply_writes_def write_output_def)

lemma steps_loop_writes:
  "\<exists>r W. \<forall>s. steps_loop e p idx acc reports s = (r, apply_writes W s)"
proof (induction reports arbitrary: idx acc)
  case Nil
  show ?case by (auto intro: exI [of _ "[]"] simp: apply_writes_Nil)
next
  case (Cons r reports)
  show ?case
  proof (cases "analyze_single_report e r idx")
    case (Inl err)
    then show ?thesis by (auto intro: exI [of _ "[]"] simp: apply_writes_Nil)
  next
    case (Inr step)
    from Cons [of "Suc idx" "acc @ [step_text idx step]"]
    obtain r' W where
      "\<forall>s. steps_loop e p (Suc idx) (acc @ [step_text idx step]) reports s = (r', apply_writes W s)"
      by blast
    with Inr show ?thesis
      by (auto simp: apply_writes_write Let_def)
  qed
qed

lemma run_pipeline_writes:
  "\<exists>r W. (\<forall>s. run_pipeline e p reports s = (r, apply_writes W s)) \<and> (r = Inr () \<longrightarrow> W \<noteq> [])"
proof -
  obtain r W where rw: "\<forall>s. steps_loop e p 1 [] reports s = (r, apply_writes W s)"
    using steps_loop_writes by blast
  show ?thesis
  proof (cases r)
    case (Inl err)
    with rw show ?thesis
      unfolding run_pipeline_def by (intro exI [of _ "Inl err"] exI [of _ W]) simp
  next
    case (Inr steps)
    show ?thesis
    proof (cases "analyze_reports e steps")
      case (Inl err)
      with rw Inr show ?thesis
        unfolding run_pipeline_def by (intro exI [of _ "Inl err"] exI [of _ W]) simp
    next
      case f: (Inr final)
      with rw Inr show ?thesis unfolding run_pipeline_def
        by (intro exI [of _ "Inr ()"] exI [of _ "W @ [(p, ''Final Summary:\<newline>'' @ final)]"])
           (simp add: write_apply_writes)
    qed
  qed
qed

lemma out_file_apply_twice:
  "out_file (apply_writes W (apply_writes W s)) = out_file (apply_writes W s)"
  by (simp add: apply_writes_def)

text \<open>
  Claim C9. With the same collaborators, project and reports, a second run of the
  pipeline on the state the first run left ends as the first did and leaves the same
  file content. More generally the outcome does not depend on the state the pipeline
  starts in, and neither does the file content of a run that comes to its end.
\<close>

theorem pipeline_idempotent:
  "fst (run_pipeline e project reports (snd (run_pipeline e project reports s))) =
     fst (run_pipeline e project reports s) \<and>
   out_file (snd (run_pipeline e project reports (snd (run_pipeline e project reports s)))) =
     out_file (snd (run_pipeline e project reports s)) \<and>
   fst (run_pipeline e project reports s') = fst (run_pipeline e project reports s) \<and>
   (fst (run_pipeline e project reports s) = Inr () \<longrightarrow>
      out_file (snd (run_pipeline e project reports s')) =
      out_file (snd (run_pipeline e project reports s)))"
proof -
  obtain r W where rw: "\<forall>s. run_pipeline e project reports s = (r, apply_writes W s)"
    and ne: "r = Inr () \<longrightarrow> W \<noteq> []"
    using run_pipeline_writes by blast
  show ?thesis using ne by (simp add: rw out_file_apply_twice) (simp add: apply_writes_def)
qed

theorem pipeline_idempotent_witness:
  "fst (run_pipeline demo_env ''fabric'' [''Healthy quarter.''] empty_state) = Inr () \<and>
   out_file (snd (run_pipeline demo_env ''fabric'' [''Healthy quarter.''] fabric_done)) =
     Some ''fabric:\<newline>\<newline>Final Summary:\<newline>looks healthy\<newline>'' \<and>
   out_file (snd (run_pipeline demo_env ''fabric'' [''Healthy quarter.''] empty_state)) =
     Some ''fabric:\<newline>\<newline>Final Summary:\<newline>looks healthy\<newline>''"
proof -
  have r: "run_pipeline demo_env ''fabric'' [''Healthy quarter.''] empty_state = (Inr (), fabric_done)"
    by code_simp
  have f: "out_file fabric_done = Some ''fabric:\<newline>\<newline>Final Summary:\<newline>looks healthy\<newline>''"
    by (simp add: fabric_done_def)
  show ?thesis
    using r f
      pipeline_idempotent [of demo_env "''fabric''" "[''Healthy quarter.'']" empty_state fabric_done]
    by simp
qed

section \<open>The run over the pull requests\<close>

lemma process_all_append:
  "process_all e c (xs @ ys) s =
     (case process_all e c xs s of
        (Inl err, s') \<Rightarrow> (Inl err, s')
      | (Inr u, s') \<Rightarrow> process_all e c ys s')"
  by (induction xs arbitrary: s) (auto split: prod.splits sum.splits)

text \<open>
  Claim C1, as amended. When the pull requests before one are processed without error
  and the processing of that one raises an error, the loop ends there with that error,
  in the state the failing pull request left, whatever pull requests come after it: they
  are not processed. So does \<^const>\<open>run\<close> when these are the open pull requests.
\<close>

theorem failure_ends_the_run:
  assumes "process_all e cands before s = (Inr (), s1)"
    "process_pull_request e pr cands s1 = (Inl err, s2)"
  shows "process_all e cands (before @ pr # rest) s = (Inl err, s2) \<and>
         (list_possible_projects e = Inr cands \<and>
          get_open_pull_requests e = Inr (before @ pr # rest) \<longrightarrow>
          run e s = (Inl err, s2))"
  using assms by (simp add: process_all_append run_def)

theorem failure_ends_the_run_witness:
  "process_all three_pr_env demo_candidates [fabric_pr] empty_state = (Inr (), fabric_done) \<and>
   process_pull_request three_pr_env besu_pr demo_candidates fabric_done =
     (Inl HTTPError, fabric_done) \<and>
   list_possible_projects three_pr_env = Inr demo_candidates \<and>
   get_open_pull_requests three_pr_env = Inr ([fabric_pr] @ besu_pr # [firefly_pr]) \<and>
   run three_pr_env empty_state = (Inl HTTPError, fabric_done)"
proof -
  have a: "process_all three_pr_env demo_candidates [fabric_pr] empty_state = (Inr (), fabric_done)"
    by code_simp
  have b: "process_pull_request three_pr_env besu_pr demo_candidates fabric_done =
      (Inl HTTPError, fabric_done)"
    by code_simp
  have c: "list_possible_projects three_pr_env = Inr demo_candidates"
    by code_simp
  have d: "get_open_pull_requests three_pr_env = Inr ([fabric_pr] @ besu_pr # [firefly_pr])"
    by (simp add: three_pr_env_def)
  show ?thesis
    using a b c d failure_ends_the_run [OF a b, where rest = "[firefly_pr]"] by simp
qed

text \<open>
  The claim as it stands fails: with two open pull requests of which the first one
  meets a transport failure, \<^const>\<open>run\<close> ends with that failure and has written
  nothing, although the second pull request, processed alone, is analysed to the end.
\<close>

theorem failure_not_isolated_counterexample:
  "get_open_pull_requests demo_env = Inr [besu_pr, fabric_pr] \<and>
   list_possible_projects demo_env = Inr demo_candidates \<and>
   process_pull_request demo_env besu_pr demo_candidates empty_state =
     (Inl HTTPError, empty_state) \<and>
   process_pull_request demo_env fabric_pr demo_candidates empty_state =
     (Inr (), fabric_done) \<and>
   run demo_env empty_state = (Inl HTTPError, empty_state) \<and>
   empty_state \<noteq> fabric_done"
  by code_simp

section \<open>Reports of a pull request\<close>

lemma pr_files_loop_empty:
  "\<forall>f\<in>set fs. get_file_content e f = Inr [] \<Longrightarrow> pr_files_loop e reports fs = Inr reports"
  by (induction fs arbitrary: reports) auto

text \<open>
  Claim C4, as amended. When the pull request has no number, or the listing of its
  changed files succeeds and every changed file is fetched with empty content,
  \<^const>\<open>extract_reports_from_pr\<close> returns the body and the description of the pull
  request, joined by a newline and trimmed, as the only report, and the empty list
  when that text is empty. The title is not part of the text.
\<close>

theorem text_report_is_body_and_description:
  assumes "pr_number pr = None \<or>
     (\<exists>n fs. pr_number pr = Some n \<and> get_pr_files e n = Inr fs \<and>
        (\<forall>f\<in>set fs. get_file_content e f = Inr []))"
  shows "extract_reports_from_pr pr e =
     Inr (let content = strip (fmt (get_field (pr_body pr)) @ ''\<newline>'' @
                               fmt (get_field (pr_description pr)))
          in if content = [] then [] else [content])"
  using assms
  by (auto simp: extract_reports_from_pr_def pr_text_report_def pr_files_loop_empty Let_def)

theorem text_report_is_body_and_description_witness:
  "pr_number fabric_pr = Some 2 \<and> get_pr_files demo_env 2 = Inr [fabric_file] \<and>
   get_file_content demo_env fabric_file = Inr [] \<and>
   extract_reports_from_pr fabric_pr demo_env = Inr [''Healthy quarter.'']"
proof -
  have a: "pr_number fabric_pr = Some 2" by (simp add: fabric_pr_def)
  have b: "get_pr_files demo_env 2 = Inr [fabric_file]" by (simp add: demo_env_def)
  have c: "get_file_content demo_env fabric_file = Inr []" by code_simp
  have h: "pr_number fabric_pr = None \<or>
     (\<exists>n fs. pr_number fabric_pr = Some n \<and> get_pr_files demo_env n = Inr fs \<and>
        (\<forall>f\<in>set fs. get_file_content demo_env f = Inr []))"
    using a b c by simp
  have v: "(let content = strip (fmt (get_field (pr_body fabric_pr)) @ ''\<newline>'' @
                               fmt (get_field (pr_description fabric_pr)))
          in if content = [] then [] else [content]) = [''Healthy quarter.'']"
    by code_simp
  from text_report_is_body_and_description [OF h] have "extract_reports_from_pr fabric_pr demo_env = Inr [''Healthy quarter.'']"
    unfolding v .
  with a b c show ?thesis by (intro conjI)
qed

text \<open>
  The claim as it stands fails: for a pull request with a title, an empty body and no
  changed files, the concatenation of title, body and description is not empty and yet
  no report is returned.
\<close>

theorem title_not_in_text_report_counterexample:
  "pr_number title_only_pr = None \<and>
   fmt (get_field (pr_title title_only_pr)) @ fmt (get_field (pr_body title_only_pr)) @
     fmt (get_field (pr_description title_only_pr)) = ''Annual report of Fabric'' \<and>
   extract_reports_from_pr title_only_pr demo_env = Inr []"
  by code_simp

section \<open>Candidate projects\<close>

subsection \<open>From the file names\<close>

lemma add_tokens_set:
  "set (add_tokens ps ts) = set ps \<union> set (map lower (filter (\<lambda>t. length t > 2) ts))"
  by (induction ts arbitrary: ps) auto

lemma projects_from_names_set:
  "set (projects_from_names ps fs) = set ps \<union> set (name_tokens fs)"
  by (induction fs arbitrary: ps) (auto simp: name_tokens_def add_tokens_set)

text \<open>
  Claim C7, as amended. When the \<^verbatim>\<open>try\<close> block raises, that is when the schedule
  document cannot be looked up, its content cannot be fetched, or the content lacks
  \<^verbatim>\<open>"Project"\<close> or a pipe, \<^const>\<open>list_possible_projects\<close> lists the files of the
  repository. When that listing succeeds it returns normally, and what it returns are
  exactly the lowercased tokens of more than two characters of the names of the files;
  the error of the schedule is not passed on. When the listing itself fails, that
  error is raised.
\<close>

theorem fallback_returns_name_tokens:
  assumes "get_file_by_path e schedule_path = Inl err \<or>
     (\<exists>fi. get_file_by_path e schedule_path = Inr fi \<and>
        (get_file_content e fi = Inl err \<or>
         (\<exists>content. get_file_content e fi = Inr content \<and>
            (\<not> py_in ''Project'' content \<or> \<not> py_in ''|'' content))))"
  shows "(list_repo_files e = Inr files \<longrightarrow>
           (\<exists>ps. list_possible_projects e = Inr ps \<and> set ps = set (name_tokens files))) \<and>
         (list_repo_files e = Inl err' \<longrightarrow> list_possible_projects e = Inl err')"
proof -
  from assms obtain err'' where "projects_from_schedule e = Inl err''"
    by (auto simp: projects_from_schedule_def)
  then show ?thesis
    by (simp add: list_possible_projects_def projects_from_names_set)
qed

theorem fallback_returns_name_tokens_witness:
  "get_file_by_path demo_env schedule_path = Inl HTTPError \<and>
   list_repo_files demo_env = Inr [besu_file, fabric_file] \<and>
   (\<exists>ps. list_possible_projects demo_env = Inr ps \<and>
      set ps = {''2025'', ''besu'', ''report'', ''fabric''}) \<and>
   get_file_by_path no_listing_env schedule_path = Inl HTTPError \<and>
   list_repo_files no_listing_env = Inl HTTPError \<and>
   list_possible_projects no_listing_env = Inl HTTPError"
proof -
  have a: "get_file_by_path demo_env schedule_path = Inl HTTPError" by (simp add: demo_env_def)
  have b: "list_repo_files demo_env = Inr [besu_file, fabric_file]" by (simp add: demo_env_def)
  have t: "name_tokens [besu_file, fabric_file] = [''2025'', ''besu'', ''report'', ''fabric'']"
    by code_simp
  from fallback_returns_name_tokens [OF disjI1 [OF a], where files = "[besu_file, fabric_file]"] b
  obtain ps where
    "list_possible_projects demo_env = Inr ps" "set ps = set (name_tokens [besu_file, fabric_file])"
    by blast
  then have c: "\<exists>ps. list_possible_projects demo_env = Inr ps \<and>
      set ps = {''2025'', ''besu'', ''report'', ''fabric''}"
    unfolding t by auto
  have a': "get_file_by_path no_listing_env schedule_path = Inl HTTPError"
    by (simp add: no_listing_env_def demo_env_def)
  have b': "list_repo_files no_listing_env = Inl HTTPError"
    by (simp add: no_listing_env_def)
  from fallback_returns_name_tokens [OF disjI1 [OF a'], where err' = HTTPError] b'
  have c': "list_possible_projects no_listing_env = Inl HTTPError" by blast
  from a b c a' b' c' show ?thesis by (intro conjI)
qed

text \<open>
  The claim as it stands fails for a document of the wrong shape that the
  \<^verbatim>\<open>try\<close> block accepts: one that has the text "Project" and a pipe but no line
  with a "project" column. The program then returns no candidate at all and does not
  look at the file names.
\<close>

theorem headerless_schedule_no_fallback_counterexample:
  "get_file_by_path headerless_env schedule_path = Inr schedule_file \<and>
   get_file_content headerless_env schedule_file = Inr headerless_schedule \<and>
   py_in ''Project'' headerless_schedule \<and> py_in ''|'' headerless_schedule \<and>
   list_all (\<lambda>line. \<not> is_header line) (splitlines headerless_schedule) \<and>
   list_repo_files headerless_env = Inr [besu_file] \<and>
   name_tokens [besu_file] = [''2025'', ''besu'', ''report''] \<and>
   list_possible_projects headerless_env = Inr []"
  by code_simp

subsection \<open>From the schedule table\<close>

lemma strip_chars_idem: "strip_chars p (strip_chars p s) = strip_chars p s"
proof -
  define t where "t = dropWhile p s"
  define u where "u = dropWhile p (rev t)"
  have res: "strip_chars p s = rev u" by (simp add: strip_chars_def t_def u_def)
  show ?thesis
  proof (cases "u = []")
    case True
    then show ?thesis unfolding res by (simp add: strip_chars_def)
  next
    case False
    have hu: "\<not> p (hd u)" using False hd_dropWhile [of p "rev t"] by (simp add: u_def)
    obtain w where w: "rev t = w @ u"
      by (metis takeWhile_dropWhile_id u_def)
    then have t: "t = rev u @ rev w" by (metis rev_append rev_rev_ident)
    have "t \<noteq> []" using False t by simp
    then have "\<not> p (hd t)" using hd_dropWhile [of p s] by (simp add: t_def)
    then have "\<not> p (hd (rev u))" using t False by simp
    then have "dropWhile p (rev u) = rev u" by (simp add: dropWhile_eq_self_iff)
    moreover have "dropWhile p u = u" using hu by (simp add: dropWhile_eq_self_iff)
    ultimately show ?thesis unfolding res by (simp add: strip_chars_def)
  qed
qed

lemma strip_idem: "strip (strip s) = strip s"
  by (simp add: strip_def strip_chars_idem)

lemma index_of_less: "x \<in> set xs \<Longrightarrow> index_of x xs < length xs"
  by (induction xs) auto

lemma schedule_loop_skip:
  "\<forall>l\<in>set pre. \<not> is_header l \<Longrightarrow>
   \<exists>hc'. schedule_loop False hc ps (pre @ rest) = schedule_loop False hc' ps rest"
proof (induction pre arbitrary: hc)
  case Nil
  then show ?case by auto
next
  case (Cons l pre)
  then show ?case
    by (cases "CHR ''|'' \<in> set l") (auto simp: is_header_def norm_cols_def Let_def)
qed

lemma schedule_loop_header:
  "is_header hdr \<Longrightarrow> schedule_loop False hc ps (hdr # rows) = schedule_loop True (norm_cols hdr) ps rows"
  by (simp add: is_header_def norm_cols_def Let_def)

lemma schedule_loop_rows:
  assumes "''project'' \<in> set (norm_cols hdr)"
  shows "set (schedule_loop True (norm_cols hdr) ps rows) = set ps \<union> set (table_projects hdr rows)"
proof (induction rows arbitrary: ps)
  case Nil
  show ?case by (simp add: table_projects_def)
next
  case (Cons row rows)
  have ne: "norm_cols hdr \<noteq> []" using assms by auto
  have len: "length (norm_cols hdr) = length (pipe_cells hdr)" by (simp add: norm_cols_def)
  have cell: "strip (map strip (pipe_cells row) ! index_of ''project'' (norm_cols hdr)) = project_cell hdr row"
    if "length (pipe_cells row) = length (pipe_cells hdr)"
    using that index_of_less [OF assms] len by (simp add: project_cell_def strip_idem)
  show ?case
  proof (cases "is_project_row hdr row")
    case True
    then show ?thesis
      using Cons [of "List.insert (lower (project_cell hdr row)) ps"] ne len cell
      by (simp add: is_project_row_def table_projects_def Let_def)
  next
    case False
    then show ?thesis
      using Cons [of ps] ne len cell
      by (auto simp: is_project_row_def table_projects_def Let_def)
  qed
qed

lemma splitlines_aux_chars:
  "l \<in> set (splitlines_aux cur s) \<Longrightarrow> set l \<subseteq> set cur \<union> set s"
  by (induction cur s rule: splitlines_aux.induct) (auto split: if_splits)

lemma py_in_single: "py_in [c] s \<longleftrightarrow> c \<in> set s"
  by (induction s) auto

text \<open>A document none of whose lines is a header row gives no project, and no error.\<close>

lemma schedule_without_header: "\<forall>l\<in>set lines. \<not> is_header l \<Longrightarrow> schedule_loop False hc ps lines = ps"
  using schedule_loop_skip [of lines hc ps "[]"] by auto

text \<open>
  Claim C5, as amended. Let the schedule document be readable and contain the text
  \<^verbatim>\<open>"Project"\<close> in this letter case, and let \<open>hdr\<close> be the first of its lines that
  has a pipe and a normalized column "project". Then \<^const>\<open>list_possible_projects\<close>
  returns exactly the projects of \<^const>\<open>table_projects\<close>: the trimmed, lowercased
  cell in the "project" column of every later line that is not a separator row, has a
  pipe and as many cells as the header, unless that cell is empty or made of hyphens
  and whitespace only.
\<close>

theorem schedule_table_projects:
  assumes "get_file_by_path e schedule_path = Inr fi" "get_file_content e fi = Inr content"
    "py_in ''Project'' content"
    "splitlines content = pre @ hdr # rows" "\<forall>l\<in>set pre. \<not> is_header l" "is_header hdr"
  shows "\<exists>ps. list_possible_projects e = Inr ps \<and> set ps = set (table_projects hdr rows)"
proof -
  have "hdr \<in> set (splitlines_aux [] content)"
    using assms(4) by (simp add: splitlines_def)
  then have "set hdr \<subseteq> set content"
    using splitlines_aux_chars by fastforce
  then have pipe: "py_in ''|'' content"
    using assms(6) by (auto simp: py_in_single is_header_def)
  obtain hc' where "schedule_loop False [] [] (pre @ hdr # rows) = schedule_loop False hc' [] (hdr # rows)"
    using schedule_loop_skip [OF assms(5)] by blast
  then have "set (schedule_loop False [] [] (splitlines content)) = set (table_projects hdr rows)"
    using assms(4,6) schedule_loop_rows [of hdr "[]" rows]
    by (simp add: schedule_loop_header is_header_def del: schedule_loop.simps)
  then show ?thesis
    using assms(1-3) pipe
    by (simp add: list_possible_projects_def projects_from_schedule_def)
qed

theorem schedule_table_projects_witness:
  "get_file_by_path (schedule_env spec_schedule) schedule_path = Inr schedule_file \<and>
   get_file_content (schedule_env spec_schedule) schedule_file = Inr spec_schedule \<and>
   py_in ''Project'' spec_schedule \<and>
   splitlines spec_schedule =
     [] @ ''Project | Status'' # [''Hyperledger FireFly | Active'', ''ProjectY | Active''] \<and>
   is_header ''Project | Status'' \<and>
   (\<exists>ps. list_possible_projects (schedule_env spec_schedule) = Inr ps \<and>
      set ps = {''hyperledger firefly'', ''projecty''})"
proof -
  have a: "get_file_by_path (schedule_env spec_schedule) schedule_path = Inr schedule_file"
    by code_simp
  have b: "get_file_content (schedule_env spec_schedule) schedule_file = Inr spec_schedule"
    by code_simp
  have c: "py_in ''Project'' spec_schedule" by code_simp
  have d: "splitlines spec_schedule =
     [] @ ''Project | Status'' # [''Hyperledger FireFly | Active'', ''ProjectY | Active'']"
    by code_simp
  have e: "\<forall>l\<in>set []. \<not> is_header l" by simp
  have f: "is_header ''Project | Status''" by code_simp
  have t: "table_projects ''Project | Status''
      [''Hyperledger FireFly | Active'', ''ProjectY | Active''] =
      [''hyperledger firefly'', ''projecty'']"
    by code_simp
  from schedule_table_projects [OF a b c d e f] obtain ps where
    "list_possible_projects (schedule_env spec_schedule) = Inr ps"
    "set ps = set (table_projects ''Project | Status''
      [''Hyperledger FireFly | Active'', ''ProjectY | Active''])"
    by blast
  then have "\<exists>ps. list_possible_projects (schedule_env spec_schedule) = Inr ps \<and>
      set ps = {''hyperledger firefly'', ''projecty''}"
    unfolding t by auto
  with a b c d f show ?thesis by (intro conjI)
qed

text \<open>
  The claim as it stands fails for a table whose header spells "project" in lowercase
  when the document has no "Project" elsewhere: the program then takes the document
  for one without a table and falls back to the file names.
\<close>

theorem lowercase_header_falls_back_counterexample:
  "get_file_by_path (schedule_env lowercase_schedule) schedule_path = Inr schedule_file \<and>
   get_file_content (schedule_env lowercase_schedule) schedule_file = Inr lowercase_schedule \<and>
   splitlines lowercase_schedule = [''project | status'', ''fabric | active''] \<and>
   is_header ''project | status'' \<and>
   table_projects ''project | status'' [''fabric | active''] = [''fabric''] \<and>
   list_possible_projects (schedule_env lowercase_schedule) = Inr []"
  by code_simp

end
